theory Spec2Isabelle
  imports Complex_Main
begin

section \<open>EcoShop: cart and checkout (orders/models.py, orders/views.py)\<close>

text \<open>
  The views of \<^verbatim>\<open>src/orders/views.py\<close> are modelled as functions from a request
  and the database to an outcome: the database afterwards, the flash messages, what was
  printed, and either the HTTP response or the exception that left the view.

  Python's \<^verbatim>\<open>Decimal\<close> values are rationals: sums and products of decimals are exact
  as long as they fit the context precision of 28 significant digits, which is assumed
  throughout. Python's unbounded \<^verbatim>\<open>int\<close> is \<^typ>\<open>int\<close>.

  A row holds the field values of the model object the view saved. What the database
  adapter does to a value on its way into a column (a \<^verbatim>\<open>DecimalField\<close> with
  \<^verbatim>\<open>decimal_places=2\<close> is stored with two places) happens outside the views and is
  not modelled; the object the view goes on to use keeps the value it was assigned.
\<close>

subsection \<open>Rows (products/models.py, accounts/models.py, orders/models.py)\<close>

type_synonym decimal = rat

record product =
  product_name :: string
  product_slug :: string
  price :: decimal
  stock :: int
  eco_score :: int
  is_active :: bool

record user =
  eco_points :: int
  total_orders :: int
  user_co2_saved :: decimal

record cart =
  cart_id :: nat
  cart_user :: "nat option"
  cart_session_key :: "string option"

record cart_item =
  item_id :: nat
  item_cart :: nat
  item_product :: nat
  quantity :: int

text \<open>The cleaned data of \<^verbatim>\<open>CheckoutForm\<close> (orders/forms.py).\<close>

record shipping =
  shipping_name :: string
  shipping_email :: string
  shipping_phone :: string
  shipping_address :: string
  shipping_city :: string
  shipping_country :: string
  shipping_postal_code :: string
  shipping_notes :: string

record order =
  order_id :: nat
  order_number :: string
  order_user :: nat
  order_status :: string
  order_shipping :: shipping
  subtotal :: decimal
  tax :: decimal
  shipping_cost :: decimal
  total :: decimal
  eco_points_earned :: int
  co2_saved :: decimal

record order_item =
  oi_order :: nat
  oi_product :: "nat option"
  oi_product_name :: string
  oi_product_price :: decimal
  oi_quantity :: int
  oi_eco_score :: int

text \<open>
  The database: one table per model. Products and users are keyed by primary key; the
  other tables are lists of rows in the order the database returns them.
\<close>

record db =
  products :: "nat \<rightharpoonup> product"
  users :: "nat \<rightharpoonup> user"
  carts :: "cart list"
  cart_items :: "cart_item list"
  orders :: "order list"
  order_items :: "order_item list"
  user_activity :: "(nat \<times> string) list"

subsection \<open>Requests, messages, responses\<close>

datatype http_method = GET | POST

text \<open>
  \<^verbatim>\<open>request.POST.get('quantity', 1)\<close> passed to \<^verbatim>\<open>int\<close>: the field is absent, holds
  text that \<^verbatim>\<open>int\<close> parses, or holds text on which \<^verbatim>\<open>int\<close> raises.
\<close>

datatype post_int = Absent | Int_text int | Not_int

text \<open>
  A request. \<open>req_user\<close> is the primary key the session authenticates, \<open>post_form\<close> is
  the cleaned checkout form when it validates. The last three fields are what the
  environment supplies during the request: the key \<^verbatim>\<open>request.session.create()\<close>
  makes, the 32 hexadecimal digits of \<^verbatim>\<open>uuid.uuid4().hex\<close>, and the message of the
  exception \<^verbatim>\<open>send_order_confirmation_email\<close> raises, if it raises.
\<close>

record request =
  req_user :: "nat option"
  req_session_key :: "string option"
  req_method :: http_method
  req_referer :: "string option"
  post_quantity :: post_int
  post_action :: "string option"
  post_form :: "shipping option"
  env_new_session_key :: string
  env_uuid_hex :: string
  env_email_exception :: "string option"

datatype level = Error | Success | Warning | Info

datatype message =
    Only_items_available int
  | Updated_quantity_in_cart string
  | Added_to_cart string
  | Cart_updated
  | Maximum_stock_reached
  | Item_removed_from_cart
  | Removed_from_cart string
  | Your_cart_is_empty
  | Is_out_of_stock string
  | Order_placed_successfully string

datatype response =
    Redirect string "string list"
  | Redirect_to_login
  | Render_checkout decimal decimal decimal decimal int

datatype error =
    Http404
  | ValueError
  | DoesNotExist
  | MultipleObjectsReturned
  | IntegrityError

record outcome =
  out_db :: db
  out_messages :: "(level \<times> message) list"
  out_printed :: "string list"
  out_response :: "error + response"

definition raise :: "db \<Rightarrow> error \<Rightarrow> outcome" where
  "raise d e = \<lparr>out_db = d, out_messages = [], out_printed = [], out_response = Inl e\<rparr>"

definition respond :: "db \<Rightarrow> (level \<times> message) list \<Rightarrow> response \<Rightarrow> outcome" where
  "respond d ms r = \<lparr>out_db = d, out_messages = ms, out_printed = [], out_response = Inr r\<rparr>"

subsection \<open>Queries\<close>

text \<open>A fresh primary key for an auto-increment column.\<close>

definition next_id :: "nat list \<Rightarrow> nat" where
  "next_id ids = Suc (fold max ids 0)"

text \<open>
  \<^verbatim>\<open>request.user\<close>: the row of the authenticated user, or the anonymous user
  (\<open>None\<close>) when the session names nobody or a user that is gone.
\<close>

definition request_user :: "request \<Rightarrow> db \<Rightarrow> (nat \<times> user) option" where
  "request_user req d =
     (case req_user req of
        None \<Rightarrow> None
      | Some uid \<Rightarrow> (case users d uid of None \<Rightarrow> None | Some u \<Rightarrow> Some (uid, u)))"

text \<open>
  \<^verbatim>\<open>Cart.objects.get_or_create(**kwargs)\<close>: the one matching row, a new row when
  none matches, \<^verbatim>\<open>MultipleObjectsReturned\<close> when several match.
\<close>

definition cart_get_or_create ::
  "(cart \<Rightarrow> bool) \<Rightarrow> nat option \<Rightarrow> string option \<Rightarrow> db \<Rightarrow> error + (cart \<times> db)" where
  "cart_get_or_create matches u k d =
     (case filter matches (carts d) of
        [] \<Rightarrow>
          (let c = \<lparr>cart_id = next_id (map cart_id (carts d)), cart_user = u,
                    cart_session_key = k\<rparr>
           in Inr (c, d\<lparr>carts := carts d @ [c]\<rparr>))
      | [c] \<Rightarrow> Inr (c, d)
      | _ \<Rightarrow> Inl MultipleObjectsReturned)"

text \<open>
  \<^verbatim>\<open>get_or_create_cart\<close> (views.py 14-29). The write of
  \<^verbatim>\<open>request.session['cart_session_key']\<close> goes to the session store, which is not part
  of \<^typ>\<open>db\<close>.
\<close>

definition get_or_create_cart :: "request \<Rightarrow> db \<Rightarrow> error + (cart \<times> db)" where
  "get_or_create_cart req d =
     (case request_user req d of
        Some (uid, u) \<Rightarrow> cart_get_or_create (\<lambda>c. cart_user c = Some uid) (Some uid) None d
      | None \<Rightarrow>
          (let session_key =
                 (case req_session_key req of
                    None \<Rightarrow> env_new_session_key req
                  | Some k \<Rightarrow> if k = [] then env_new_session_key req else k)
           in cart_get_or_create (\<lambda>c. cart_session_key c = Some session_key)
                None (Some session_key) d))"

text \<open>\<^verbatim>\<open>cart.items.all()\<close>: the rows of \<^verbatim>\<open>CartItem\<close> whose cart is this one.\<close>

definition items_all :: "db \<Rightarrow> cart \<Rightarrow> cart_item list" where
  "items_all d c = filter (\<lambda>it. item_cart it = cart_id c) (cart_items d)"

text \<open>
  An item together with its product row. \<^verbatim>\<open>CartItem.product\<close> is a non-null foreign
  key with \<^verbatim>\<open>on_delete=CASCADE\<close>, so every item joins to exactly one product;
  \<^verbatim>\<open>select_related('product')\<close> reads items through this join, and so does
  \<^verbatim>\<open>item.product\<close> on a row of \<^verbatim>\<open>items.all()\<close>.
\<close>

fun join_product :: "db \<Rightarrow> cart_item list \<Rightarrow> (cart_item \<times> product) list" where
  "join_product d [] = []"
| "join_product d (it # its) =
     (case products d (item_product it) of
        None \<Rightarrow> join_product d its
      | Some p \<Rightarrow> (it, p) # join_product d its)"

definition select_related_product :: "db \<Rightarrow> cart \<Rightarrow> (cart_item \<times> product) list" where
  "select_related_product d c = join_product d (items_all d c)"

text \<open>\<^verbatim>\<open>CartItem.subtotal\<close> and the three totals of \<^verbatim>\<open>Cart\<close> (models.py 19-29, 48-50).\<close>

definition item_subtotal :: "cart_item \<times> product \<Rightarrow> decimal" where
  "item_subtotal l = price (snd l) * of_int (quantity (fst l))"

definition total_items :: "db \<Rightarrow> cart \<Rightarrow> int" where
  "total_items d c = sum_list (map quantity (items_all d c))"

definition total_price :: "db \<Rightarrow> cart \<Rightarrow> decimal" where
  "total_price d c = sum_list (map item_subtotal (select_related_product d c))"

definition total_eco_points :: "db \<Rightarrow> cart \<Rightarrow> int" where
  "total_eco_points d c =
     sum_list (map (\<lambda>l. eco_score (snd l) * quantity (fst l)) (select_related_product d c))"

text \<open>\<^verbatim>\<open>cart_item.save()\<close> and \<^verbatim>\<open>cart_item.delete()\<close>: by primary key.\<close>

definition save_item :: "cart_item \<Rightarrow> db \<Rightarrow> db" where
  "save_item it d =
     d\<lparr>cart_items := map (\<lambda>r. if item_id r = item_id it then it else r) (cart_items d)\<rparr>"

definition delete_item :: "cart_item \<Rightarrow> db \<Rightarrow> db" where
  "delete_item it d = d\<lparr>cart_items := filter (\<lambda>r. item_id r \<noteq> item_id it) (cart_items d)\<rparr>"

subsection \<open>Cart views (views.py 53-123)\<close>

text \<open>\<^verbatim>\<open>int(request.POST.get('quantity', 1))\<close>.\<close>

definition parse_quantity :: "post_int \<Rightarrow> error + int" where
  "parse_quantity f = (case f of Absent \<Rightarrow> Inr 1 | Int_text n \<Rightarrow> Inr n | Not_int \<Rightarrow> Inl ValueError)"

text \<open>
  \<^verbatim>\<open>add_to_cart\<close>. The product is looked up first (404 when absent or inactive),
  then the cart, then the quantity is parsed; the only check on the quantity is
  \<^verbatim>\<open>product.stock < quantity\<close>.
\<close>

definition add_to_cart :: "request \<Rightarrow> nat \<Rightarrow> db \<Rightarrow> outcome" where
  "add_to_cart req product_id d =
     (case products d product_id of
        None \<Rightarrow> raise d Http404
      | Some p \<Rightarrow>
          if \<not> is_active p then raise d Http404
          else
            (case get_or_create_cart req d of
               Inl e \<Rightarrow> raise d e
             | Inr (c, d1) \<Rightarrow>
                 (case parse_quantity (post_quantity req) of
                    Inl e \<Rightarrow> raise d1 e
                  | Inr qty \<Rightarrow>
                      if stock p < qty then
                        respond d1 [(Error, Only_items_available (stock p))]
                          (Redirect ''products:product_detail'' [product_slug p])
                      else
                        (case filter (\<lambda>it. item_product it = product_id) (items_all d1 c) of
                           [] \<Rightarrow>
                             respond
                               (d1\<lparr>cart_items := cart_items d1 @
                                    [\<lparr>item_id = next_id (map item_id (cart_items d1)),
                                      item_cart = cart_id c, item_product = product_id,
                                      quantity = qty\<rparr>]\<rparr>)
                               [(Success, Added_to_cart (product_name p))]
                               (Redirect (case req_referer req of
                                            None \<Rightarrow> ''products:product_list''
                                          | Some url \<Rightarrow> url) [])
                         | [it] \<Rightarrow>
                             respond (save_item (it\<lparr>quantity := quantity it + qty\<rparr>) d1)
                               [(Success, Updated_quantity_in_cart (product_name p))]
                               (Redirect (case req_referer req of
                                            None \<Rightarrow> ''products:product_list''
                                          | Some url \<Rightarrow> url) [])
                         | _ \<Rightarrow> raise d1 MultipleObjectsReturned))))"

text \<open>\<^verbatim>\<open>get_object_or_404(CartItem, id=item_id, cart=cart)\<close>.\<close>

definition get_item_or_404 :: "db \<Rightarrow> nat \<Rightarrow> cart \<Rightarrow> error + cart_item" where
  "get_item_or_404 d iid c =
     (case filter (\<lambda>it. item_id it = iid) (items_all d c) of
        [] \<Rightarrow> Inl Http404
      | [it] \<Rightarrow> Inr it
      | _ \<Rightarrow> Inl MultipleObjectsReturned)"

text \<open>\<^verbatim>\<open>update_cart\<close>: the actions \<^verbatim>\<open>increase\<close> and \<^verbatim>\<open>decrease\<close>; any other does nothing.\<close>

definition update_cart :: "request \<Rightarrow> nat \<Rightarrow> db \<Rightarrow> outcome" where
  "update_cart req iid d =
     (case get_or_create_cart req d of
        Inl e \<Rightarrow> raise d e
      | Inr (c, d1) \<Rightarrow>
          (case get_item_or_404 d1 iid c of
             Inl e \<Rightarrow> raise d1 e
           | Inr it \<Rightarrow>
               if post_action req = Some ''increase'' then
                 (case products d1 (item_product it) of
                    None \<Rightarrow> raise d1 DoesNotExist
                  | Some p \<Rightarrow>
                      if stock p > quantity it then
                        respond (save_item (it\<lparr>quantity := quantity it + 1\<rparr>) d1)
                          [(Success, Cart_updated)] (Redirect ''orders:cart'' [])
                      else
                        respond d1 [(Error, Maximum_stock_reached)] (Redirect ''orders:cart'' []))
               else if post_action req = Some ''decrease'' then
                 (if quantity it > 1 then
                    respond (save_item (it\<lparr>quantity := quantity it - 1\<rparr>) d1)
                      [(Success, Cart_updated)] (Redirect ''orders:cart'' [])
                  else
                    respond (delete_item it d1)
                      [(Info, Item_removed_from_cart)] (Redirect ''orders:cart'' []))
               else respond d1 [] (Redirect ''orders:cart'' [])))"

text \<open>\<^verbatim>\<open>remove_from_cart\<close>.\<close>

definition remove_from_cart :: "request \<Rightarrow> nat \<Rightarrow> db \<Rightarrow> outcome" where
  "remove_from_cart req iid d =
     (case get_or_create_cart req d of
        Inl e \<Rightarrow> raise d e
      | Inr (c, d1) \<Rightarrow>
          (case get_item_or_404 d1 iid c of
             Inl e \<Rightarrow> raise d1 e
           | Inr it \<Rightarrow>
               (case products d1 (item_product it) of
                  None \<Rightarrow> raise d1 DoesNotExist
                | Some p \<Rightarrow>
                    respond (delete_item it d1)
                      [(Success, Removed_from_cart (product_name p))]
                      (Redirect ''orders:cart'' []))))"

subsection \<open>Python floats (views.py 158)\<close>

text \<open>
  \<^verbatim>\<open>Decimal(str(cart.total_eco_points * 0.01))\<close> multiplies an \<^verbatim>\<open>int\<close> by a
  \<^verbatim>\<open>float\<close>. A finite float is modelled by the rational it denotes. Every operation
  rounds its exact result to the nearest IEEE 754 binary64 value, ties to the even
  significand (53 bits). The exponent range is not modelled: the model is CPython's
  float arithmetic on zero and on the normal range of binary64.
\<close>

definition round_half_even :: "rat \<Rightarrow> int" where
  "round_half_even x =
     (let f = \<lfloor>x\<rfloor>; r = x - of_int f
      in if r < 1 / 2 then f else if 1 / 2 < r then f + 1 else if even f then f else f + 1)"

definition pow_int :: "int \<Rightarrow> int \<Rightarrow> rat" where
  "pow_int b k = (if 0 \<le> k then of_int b ^ nat k else 1 / of_int b ^ nat (- k))"

text \<open>\<open>\<lfloor>log\<^sub>b n\<rfloor>\<close> of a positive integer: one less than its number of digits in base \<open>b\<close>.\<close>

function ilog :: "int \<Rightarrow> int \<Rightarrow> int" where
  "ilog b n = (if n < b \<or> b < 2 then 0 else 1 + ilog b (n div b))"
  by pat_completeness auto
termination
  by (relation "measure (\<lambda>(b, n). nat n)") (auto simp: int_div_less_self)

declare ilog.simps [simp del]

text \<open>
  \<open>\<lfloor>log\<^sub>b x\<rfloor>\<close> of a positive rational: for \<open>1 \<le> x\<close> it is that of \<open>\<lfloor>x\<rfloor>\<close>; for
  \<open>x < 1\<close> it is \<open>- k\<close> for the least \<open>k\<close> with \<open>\<lceil>1 / x\<rceil> \<le> b\<^sup>k\<close>.
\<close>

definition floor_log :: "int \<Rightarrow> rat \<Rightarrow> int" where
  "floor_log b x =
     (if 1 \<le> x then ilog b \<lfloor>x\<rfloor> else - (ilog b (\<lceil>1 / x\<rceil> - 1) + 1))"

definition round_to_double :: "rat \<Rightarrow> rat" where
  "round_to_double x =
     (if x = 0 then 0
      else
        (let e = floor_log 2 \<bar>x\<bar> - 52
         in sgn x * of_int (round_half_even (\<bar>x\<bar> / pow_int 2 e)) * pow_int 2 e))"

text \<open>The literal \<^verbatim>\<open>0.01\<close>, the conversion of an \<^verbatim>\<open>int\<close> operand, and \<^verbatim>\<open>*\<close>.\<close>

definition float_literal :: "rat \<Rightarrow> rat" where
  "float_literal x = round_to_double x"

definition float_of_int :: "int \<Rightarrow> rat" where
  "float_of_int n = round_to_double (of_int n)"

definition float_mul :: "rat \<Rightarrow> rat \<Rightarrow> rat" where
  "float_mul a b = round_to_double (a * b)"

text \<open>
  \<^verbatim>\<open>str\<close> of a float is its shortest decimal numeral that reads back as the same
  float, at most 17 significant digits; \<^verbatim>\<open>Decimal\<close> of that string is the
  numeral's exact value. \<open>round_to_digits n x\<close> is the numeral of \<open>n\<close> significant
  digits nearest to \<open>x\<close>, and \<open>shortest_digits\<close> tries \<open>n = 1, 2, \<dots>, 17\<close>.
\<close>

definition round_to_digits :: "nat \<Rightarrow> rat \<Rightarrow> rat" where
  "round_to_digits n x =
     (let e = floor_log 10 \<bar>x\<bar> - int n + 1
      in sgn x * of_int (round_half_even (\<bar>x\<bar> / pow_int 10 e)) * pow_int 10 e)"

function shortest_digits :: "nat \<Rightarrow> rat \<Rightarrow> rat" where
  "shortest_digits n x =
     (if 17 \<le> n \<or> round_to_double (round_to_digits n x) = x then round_to_digits n x
      else shortest_digits (Suc n) x)"
  by pat_completeness auto
termination
  by (relation "measure (\<lambda>(n, x). 17 - n)") auto

declare shortest_digits.simps [simp del]

definition decimal_of_float_str :: "rat \<Rightarrow> decimal" where
  "decimal_of_float_str x = (if x = 0 then 0 else shortest_digits 1 x)"

subsection \<open>Checkout (views.py 126-227)\<close>

text \<open>\<^verbatim>\<open>f'ECO-{uuid.uuid4().hex[:8].upper()}'\<close>; the digits of \<^verbatim>\<open>hex\<close> are 0-9 and a-f.\<close>

definition hex_upper :: "char \<Rightarrow> char" where
  "hex_upper c =
     (if c = CHR ''a'' then CHR ''A'' else if c = CHR ''b'' then CHR ''B''
      else if c = CHR ''c'' then CHR ''C'' else if c = CHR ''d'' then CHR ''D''
      else if c = CHR ''e'' then CHR ''E'' else if c = CHR ''f'' then CHR ''F'' else c)"

definition make_order_number :: "string \<Rightarrow> string" where
  "make_order_number h = ''ECO-'' @ map hex_upper (take 8 h)"

text \<open>
  The loop of lines 162-175: one \<^verbatim>\<open>OrderItem\<close> per cart line, and the line's product
  object, as the queryset loaded it, saved with its stock lowered by the quantity.
\<close>

definition order_item_of :: "nat \<Rightarrow> cart_item \<times> product \<Rightarrow> order_item" where
  "order_item_of oid l =
     \<lparr>oi_order = oid, oi_product = Some (item_product (fst l)),
      oi_product_name = product_name (snd l), oi_product_price = price (snd l),
      oi_quantity = quantity (fst l), oi_eco_score = eco_score (snd l)\<rparr>"

fun create_order_items :: "nat \<Rightarrow> (cart_item \<times> product) list \<Rightarrow> db \<Rightarrow> db" where
  "create_order_items oid [] d = d"
| "create_order_items oid (l # ls) d =
     create_order_items oid ls
       (d\<lparr>order_items := order_items d @ [order_item_of oid l],
          products := (products d)(item_product (fst l) \<mapsto>
            (snd l)\<lparr>stock := stock (snd l) - quantity (fst l)\<rparr>)\<rparr>)"

text \<open>
  The order object of lines 150-158, before it is saved; \<^verbatim>\<open>total\<close> is assigned last,
  from the three fields set before it.
\<close>

definition build_order :: "request \<Rightarrow> nat \<Rightarrow> cart \<Rightarrow> shipping \<Rightarrow> db \<Rightarrow> order" where
  "build_order req uid c form d =
     (let o1 = \<lparr>order_id = next_id (map order_id (orders d)),
                order_number = make_order_number (env_uuid_hex req),
                order_user = uid, order_status = ''pending'', order_shipping = form,
                subtotal = total_price d c,
                tax = total_price d c * (13 / 100),
                shipping_cost = (if total_price d c < 50 then 5 else 0),
                total = 0,
                eco_points_earned = total_eco_points d c,
                co2_saved = decimal_of_float_str
                  (float_mul (float_of_int (total_eco_points d c)) (float_literal (1 / 100)))\<rparr>
      in o1\<lparr>total := subtotal o1 + tax o1 + shipping_cost o1\<rparr>)"

text \<open>
  The body of \<^verbatim>\<open>with transaction.atomic()\<close> (lines 148-194). \<^verbatim>\<open>order_number\<close> is
  unique: saving a second order with a number in use raises \<^verbatim>\<open>IntegrityError\<close>, and
  the exception leaves the block with nothing written. An exception of the e-mail
  call is caught and printed.
\<close>

definition place_order ::
  "request \<Rightarrow> nat \<Rightarrow> user \<Rightarrow> cart \<Rightarrow> shipping \<Rightarrow> (cart_item \<times> product) list \<Rightarrow> db \<Rightarrow> outcome" where
  "place_order req uid u c form lines d =
     (let ord = build_order req uid c form d
      in if order_number ord \<in> set (map order_number (orders d)) then raise d IntegrityError
         else
           (let d2 = d\<lparr>orders := orders d @ [ord]\<rparr>;
                d3 = create_order_items (order_id ord) lines d2;
                d4 = d3\<lparr>users := (users d3)(uid \<mapsto>
                       u\<lparr>eco_points := eco_points u + eco_points_earned ord,
                         total_orders := total_orders u + 1,
                         user_co2_saved := user_co2_saved u + co2_saved ord\<rparr>)\<rparr>;
                d5 = d4\<lparr>cart_items := filter (\<lambda>it. item_cart it \<noteq> cart_id c) (cart_items d4)\<rparr>
            in \<lparr>out_db = d5,
                out_messages = [(Success, Order_placed_successfully (order_number ord))],
                out_printed =
                  (case env_email_exception req of
                     None \<Rightarrow> []
                   | Some e \<Rightarrow> [''Email sending failed: '' @ e]),
                out_response = Inr (Redirect ''orders:order_confirmation'' [order_number ord])\<rparr>))"

text \<open>\<^verbatim>\<open>track_user_activity(request, page_name)\<close> for an authenticated user.\<close>

definition track_user_activity :: "nat \<Rightarrow> string \<Rightarrow> db \<Rightarrow> db" where
  "track_user_activity uid page d = d\<lparr>user_activity := user_activity d @ [(uid, page)]\<rparr>"

text \<open>
  \<^verbatim>\<open>checkout_view\<close>. \<^verbatim>\<open>@login_required\<close> sends an anonymous request to the login
  page. The two checks of lines 134-142 come before the method is looked at. A GET, or
  a POST whose form does not validate, renders \<^verbatim>\<open>orders/checkout.html\<close> with the
  subtotal, tax, shipping, total and eco points of lines 212-225.
\<close>

definition checkout_view :: "request \<Rightarrow> db \<Rightarrow> outcome" where
  "checkout_view req d =
     (case request_user req d of
        None \<Rightarrow> respond d [] Redirect_to_login
      | Some (uid, u) \<Rightarrow>
          (case get_or_create_cart req d of
             Inl e \<Rightarrow> raise d e
           | Inr (c, d1) \<Rightarrow>
               (let lines = select_related_product d1 c
                in if lines = [] then
                     respond d1 [(Warning, Your_cart_is_empty)]
                       (Redirect ''products:product_list'' [])
                   else
                     (case find (\<lambda>l. stock (snd l) < quantity (fst l)) lines of
                        Some l \<Rightarrow>
                          respond d1 [(Error, Is_out_of_stock (product_name (snd l)))]
                            (Redirect ''orders:cart'' [])
                      | None \<Rightarrow>
                          (case (req_method req, post_form req) of
                             (POST, Some form) \<Rightarrow> place_order req uid u c form lines d1
                           | _ \<Rightarrow>
                               (let subtotal' = total_price d1 c;
                                    tax' = subtotal' * (13 / 100);
                                    shipping' = (if subtotal' < 50 then 5 else 0);
                                    total' = subtotal' + tax' + shipping'
                                in respond (track_user_activity uid ''Checkout'' d1) []
                                     (Render_checkout subtotal' tax' shipping' total'
                                        (total_eco_points d1 c))))))))"

subsection \<open>What the specification observes\<close>

text \<open>The checkout answered with the redirect to the confirmation page of order \<open>n\<close>.\<close>

definition placed :: "outcome \<Rightarrow> string \<Rightarrow> bool" where
  "placed r n \<longleftrightarrow> out_response r = Inr (Redirect ''orders:order_confirmation'' [n])"

text \<open>The order a checkout created: the newest row of \<^verbatim>\<open>Order\<close>.\<close>

definition created_order :: "outcome \<Rightarrow> order" where
  "created_order r = last (orders (out_db r))"

text \<open>Every cart item has a quantity of at least 1.\<close>

definition quantities_positive :: "db \<Rightarrow> bool" where
  "quantities_positive d \<longleftrightarrow> (\<forall>it \<in> set (cart_items d). 1 \<le> quantity it)"

text \<open>The stock of a product by primary key.\<close>

definition stock_of :: "db \<Rightarrow> nat \<Rightarrow> int" where
  "stock_of d pid = (case products d pid of None \<Rightarrow> 0 | Some p \<Rightarrow> stock p)"


subsection \<open>The example scenario of the specification\<close>

text \<open>
  Product A (12.99, eco score 95) twice and product B (24.99, eco score 94) once in the
  cart of user 11; user 12 has one product C (eco score 35) in the cart; user 13 has no
  cart yet; user 14 has five of product B in the cart, one more than its stock. Products
  have the keys 21 to 23, carts 31 to 33, cart items 41 to 44.
\<close>

definition product_a :: product where
  "product_a = \<lparr>product_name = ''A'', product_slug = ''a'', price = 1299 / 100,
     stock = 10, eco_score = 95, is_active = True\<rparr>"

definition product_b :: product where
  "product_b = \<lparr>product_name = ''B'', product_slug = ''b'', price = 2499 / 100,
     stock = 4, eco_score = 94, is_active = True\<rparr>"

definition product_c :: product where
  "product_c = \<lparr>product_name = ''C'', product_slug = ''c'', price = 999 / 100,
     stock = 3, eco_score = 35, is_active = True\<rparr>"

definition new_user :: user where
  "new_user = \<lparr>eco_points = 0, total_orders = 0, user_co2_saved = 0\<rparr>"

definition cart_1 :: cart where
  "cart_1 = \<lparr>cart_id = 31, cart_user = Some 11, cart_session_key = None\<rparr>"

definition cart_2 :: cart where
  "cart_2 = \<lparr>cart_id = 32, cart_user = Some 12, cart_session_key = None\<rparr>"

definition cart_3 :: cart where
  "cart_3 = \<lparr>cart_id = 33, cart_user = Some 14, cart_session_key = None\<rparr>"

text \<open>The cart the first request of user 13 creates.\<close>

definition cart_4 :: cart where
  "cart_4 = \<lparr>cart_id = 34, cart_user = Some 13, cart_session_key = None\<rparr>"

definition shop :: db where
  "shop =
     \<lparr>products = [21 \<mapsto> product_a, 22 \<mapsto> product_b, 23 \<mapsto> product_c],
      users = [11 \<mapsto> new_user, 12 \<mapsto> new_user, 13 \<mapsto> new_user, 14 \<mapsto> new_user],
      carts = [cart_1, cart_2, cart_3],
      cart_items =
        [\<lparr>item_id = 41, item_cart = 31, item_product = 21, quantity = 2\<rparr>,
         \<lparr>item_id = 42, item_cart = 31, item_product = 22, quantity = 1\<rparr>,
         \<lparr>item_id = 43, item_cart = 32, item_product = 23, quantity = 1\<rparr>,
         \<lparr>item_id = 44, item_cart = 33, item_product = 22, quantity = 5\<rparr>],
      orders = [], order_items = [], user_activity = []\<rparr>"

definition address :: shipping where
  "address = \<lparr>shipping_name = ''N'', shipping_email = ''n@example.org'',
     shipping_phone = ''1'', shipping_address = ''S'', shipping_city = ''C'',
     shipping_country = ''L'', shipping_postal_code = ''P'', shipping_notes = []\<rparr>"

text \<open>A POST of the checkout form by user \<open>uid\<close>; the e-mail call raises when \<open>e\<close> is given.\<close>

definition checkout_post :: "nat \<Rightarrow> string option \<Rightarrow> request" where
  "checkout_post uid e =
     \<lparr>req_user = Some uid, req_session_key = Some ''s'', req_method = POST,
      req_referer = None, post_quantity = Absent, post_action = None,
      post_form = Some address, env_new_session_key = ''t'',
      env_uuid_hex = ''0a1b2c3d4e5f60718293a4b5c6d7e8f9'', env_email_exception = e\<rparr>"

text \<open>A POST to \<^verbatim>\<open>cart/add/\<close> by user \<open>uid\<close> with the quantity field \<open>q\<close>.\<close>

definition add_post :: "nat \<Rightarrow> post_int \<Rightarrow> request" where
  "add_post uid q =
     \<lparr>req_user = Some uid, req_session_key = Some ''s'', req_method = POST,
      req_referer = None, post_quantity = q, post_action = None,
      post_form = None, env_new_session_key = ''t'',
      env_uuid_hex = ''0a1b2c3d4e5f60718293a4b5c6d7e8f9'', env_email_exception = None\<rparr>"

section \<open>Properties\<close>

subsection \<open>The cart of a request\<close>

lemma cart_get_or_create_cases:
  assumes "cart_get_or_create P u k d = Inr (c, d1)"
  shows "(d1 = d \<and> filter P (carts d) = [c]) \<or>
         (d1 = d\<lparr>carts := carts d @ [c]\<rparr> \<and> filter P (carts d) = [] \<and>
          cart_user c = u \<and> cart_session_key c = k)"
  using assms
  by (auto simp: cart_get_or_create_def Let_def split: list.splits)

lemma cart_get_or_create_tables:
  assumes "cart_get_or_create P u k d = Inr (c, d1)"
  shows "products d1 = products d" "users d1 = users d" "cart_items d1 = cart_items d"
    "orders d1 = orders d" "order_items d1 = order_items d"
    "user_activity d1 = user_activity d" "c \<in> set (carts d1)"
proof -
  have "c \<in> set (carts d)" if "filter P (carts d) = [c]"
  proof -
    have "c \<in> set (filter P (carts d))" using that by simp
    then show ?thesis by simp
  qed
  then show "products d1 = products d" "users d1 = users d" "cart_items d1 = cart_items d"
    "orders d1 = orders d" "order_items d1 = order_items d"
    "user_activity d1 = user_activity d" "c \<in> set (carts d1)"
    using cart_get_or_create_cases [OF assms] by auto
qed

lemma get_or_create_cart_tables:
  assumes "get_or_create_cart req d = Inr (c, d1)"
  shows "products d1 = products d" "users d1 = users d" "cart_items d1 = cart_items d"
    "orders d1 = orders d" "order_items d1 = order_items d"
    "user_activity d1 = user_activity d" "c \<in> set (carts d1)"
  using assms
  by (auto simp: get_or_create_cart_def Let_def split: option.splits prod.splits
      dest: cart_get_or_create_tables)

lemma get_or_create_cart_totals:
  assumes "get_or_create_cart req d = Inr (c, d1)"
  shows "items_all d1 c = items_all d c"
    "select_related_product d1 c = select_related_product d c"
    "total_price d1 c = total_price d c"
    "total_eco_points d1 c = total_eco_points d c"
proof -
  show i: "items_all d1 c = items_all d c"
    using get_or_create_cart_tables [OF assms] by (simp add: items_all_def)
  have "join_product d1 xs = join_product d xs" for xs
    using get_or_create_cart_tables(1) [OF assms] by (induction xs) (auto split: option.splits)
  then show s: "select_related_product d1 c = select_related_product d c"
    by (simp add: select_related_product_def i)
  show "total_price d1 c = total_price d c" by (simp add: total_price_def s)
  show "total_eco_points d1 c = total_eco_points d c" by (simp add: total_eco_points_def s)
qed

lemma get_or_create_cart_again:
  assumes "request_user req d = Some (uid, u)"
    and "get_or_create_cart req d = Inr (c, d1)"
    and "request_user req' d2 = Some (uid, u')"
    and "carts d2 = carts d1"
  shows "get_or_create_cart req' d2 = Inr (c, d2)"
proof -
  from assms(1,2) have "cart_get_or_create (\<lambda>c. cart_user c = Some uid) (Some uid) None d = Inr (c, d1)"
    by (simp add: get_or_create_cart_def)
  from cart_get_or_create_cases [OF this]
  have "filter (\<lambda>c. cart_user c = Some uid) (carts d1) = [c]"
    by auto
  then show ?thesis
    using assms(3,4) by (simp add: get_or_create_cart_def cart_get_or_create_def)
qed

lemma request_user_users:
  assumes "request_user req d = Some (uid, u)"
    and "req_user req' = req_user req" and "users d' = users d"
  shows "request_user req' d' = Some (uid, u)"
  using assms(1) unfolding request_user_def assms(2) assms(3) .

lemma join_product_fst:
  "map fst (join_product d xs) = filter (\<lambda>it. products d (item_product it) \<noteq> None) xs"
  by (induction xs) (auto split: option.splits)

lemma join_product_lookup:
  "l \<in> set (join_product d xs) \<Longrightarrow> products d (item_product (fst l)) = Some (snd l)"
  by (induction xs) (auto split: option.splits)

lemma join_product_mem:
  "it \<in> set xs \<Longrightarrow> products d (item_product it) = Some p \<Longrightarrow> (it, p) \<in> set (join_product d xs)"
  by (induction xs) (auto split: option.splits)

lemma join_product_distinct:
  assumes "distinct (map item_product xs)"
  shows "distinct (map (\<lambda>l. item_product (fst l)) (join_product d xs))"
proof -
  have "map (\<lambda>l. item_product (fst l)) (join_product d xs) =
          map item_product (map fst (join_product d xs))"
    by (simp add: comp_def)
  also have "\<dots> = map item_product (filter (\<lambda>it. products d (item_product it) \<noteq> None) xs)"
    by (simp only: join_product_fst)
  finally show ?thesis using assms by (simp add: distinct_map_filter)
qed

lemma fold_max_ge: "(a::nat) \<le> fold max ids a"
proof (induction ids arbitrary: a)
  case Nil
  then show ?case by simp
next
  case (Cons x xs)
  have "a \<le> max x a" by simp
  also have "\<dots> \<le> fold max xs (max x a)" by (rule Cons.IH)
  finally show ?case by simp
qed

lemma fold_max_mem: "x \<in> set ids \<Longrightarrow> (x::nat) \<le> fold max ids a"
proof (induction ids arbitrary: a)
  case Nil
  then show ?case by simp
next
  case (Cons y ys)
  show ?case
  proof (cases "x = y")
    case True
    have "x \<le> max y a" using True by simp
    also have "\<dots> \<le> fold max ys (max y a)" by (rule fold_max_ge)
    finally show ?thesis by simp
  next
    case False
    with Cons.prems have "x \<in> set ys" by simp
    then show ?thesis by (simp add: Cons.IH)
  qed
qed

lemma next_id_fresh: "x \<in> set ids \<Longrightarrow> x \<noteq> next_id ids"
  using fold_max_mem [of x ids 0] by (auto simp: next_id_def)

subsection \<open>Placing an order\<close>

lemma create_order_items_tables:
  "users (create_order_items oid ls d) = users d"
  "carts (create_order_items oid ls d) = carts d"
  "cart_items (create_order_items oid ls d) = cart_items d"
  "orders (create_order_items oid ls d) = orders d"
  "user_activity (create_order_items oid ls d) = user_activity d"
  by (induction ls arbitrary: d) auto

lemma create_order_items_order_items:
  "order_items (create_order_items oid ls d) = order_items d @ map (order_item_of oid) ls"
  by (induction ls arbitrary: d) auto

lemma create_order_items_other:
  "pid \<notin> set (map (\<lambda>l. item_product (fst l)) ls) \<Longrightarrow>
   products (create_order_items oid ls d) pid = products d pid"
  by (induction ls arbitrary: d) auto

lemma create_order_items_purchased:
  "distinct (map (\<lambda>l. item_product (fst l)) ls) \<Longrightarrow> l \<in> set ls \<Longrightarrow>
   products (create_order_items oid ls d) (item_product (fst l)) =
     Some ((snd l)\<lparr>stock := stock (snd l) - quantity (fst l)\<rparr>)"
  by (induction ls arbitrary: d) (auto simp: create_order_items_other)

lemma build_order_fields:
  "subtotal (build_order req uid c form d) = total_price d c"
  "tax (build_order req uid c form d) = total_price d c * (13 / 100)"
  "shipping_cost (build_order req uid c form d) = (if total_price d c < 50 then 5 else 0)"
  "total (build_order req uid c form d) =
     subtotal (build_order req uid c form d) + tax (build_order req uid c form d) +
     shipping_cost (build_order req uid c form d)"
  "eco_points_earned (build_order req uid c form d) = total_eco_points d c"
  by (simp_all add: build_order_def Let_def)

lemma build_order_co2_saved:
  "co2_saved (build_order req uid c form d) =
     decimal_of_float_str (float_mul (float_of_int (total_eco_points d c)) (float_literal (1 / 100)))"
  by (simp add: build_order_def Let_def)

lemma place_order_db:
  assumes "order_number (build_order req uid c form d) \<notin> set (map order_number (orders d))"
  shows "orders (out_db (place_order req uid u c form ls d)) = orders d @ [build_order req uid c form d]"
    and "order_items (out_db (place_order req uid u c form ls d)) =
           order_items d @ map (order_item_of (order_id (build_order req uid c form d))) ls"
    and "products (out_db (place_order req uid u c form ls d)) =
           products (create_order_items (order_id (build_order req uid c form d)) ls
             (d\<lparr>orders := orders d @ [build_order req uid c form d]\<rparr>))"
    and "users (out_db (place_order req uid u c form ls d)) =
           (users d)(uid \<mapsto> u\<lparr>eco_points := eco_points u + eco_points_earned (build_order req uid c form d),
              total_orders := total_orders u + 1,
              user_co2_saved := user_co2_saved u + co2_saved (build_order req uid c form d)\<rparr>)"
    and "cart_items (out_db (place_order req uid u c form ls d)) =
           filter (\<lambda>it. item_cart it \<noteq> cart_id c) (cart_items d)"
    and "carts (out_db (place_order req uid u c form ls d)) = carts d"
  using assms
  by (simp_all add: place_order_def Let_def create_order_items_tables create_order_items_order_items)

lemma place_order_printed:
  "order_number (build_order req uid c form d) \<notin> set (map order_number (orders d)) \<Longrightarrow>
   out_printed (place_order req uid u c form ls d) =
     (case env_email_exception req of None \<Rightarrow> [] | Some e \<Rightarrow> [''Email sending failed: '' @ e])"
  by (simp add: place_order_def Let_def)

lemma checkout_view_placed:
  assumes "placed (checkout_view req d) n"
  obtains uid u c d1 form where
    "request_user req d = Some (uid, u)"
    "get_or_create_cart req d = Inr (c, d1)"
    "select_related_product d1 c \<noteq> []"
    "find (\<lambda>l. stock (snd l) < quantity (fst l)) (select_related_product d1 c) = None"
    "req_method req = POST" "post_form req = Some form"
    "order_number (build_order req uid c form d1) \<notin> set (map order_number (orders d1))"
    "checkout_view req d = place_order req uid u c form (select_related_product d1 c) d1"
proof -
  obtain uid u where ru: "request_user req d = Some (uid, u)"
    using assms by (cases "request_user req d") (auto simp: placed_def checkout_view_def respond_def)
  obtain c d1 where gc: "get_or_create_cart req d = Inr (c, d1)"
    using assms ru
    by (cases "get_or_create_cart req d") (auto simp: placed_def checkout_view_def raise_def)
  let ?ls = "select_related_product d1 c"
  have ne: "?ls \<noteq> []"
    using assms ru gc by (auto simp: placed_def checkout_view_def respond_def Let_def)
  have fn: "find (\<lambda>l. stock (snd l) < quantity (fst l)) ?ls = None"
    using assms ru gc ne
    by (cases "find (\<lambda>l. stock (snd l) < quantity (fst l)) ?ls")
      (auto simp: placed_def checkout_view_def respond_def Let_def)
  have m: "req_method req = POST"
    using assms ru gc ne fn
    by (cases "req_method req") (auto simp: placed_def checkout_view_def respond_def Let_def)
  obtain form where pf: "post_form req = Some form"
    using assms ru gc ne fn m
    by (cases "post_form req") (auto simp: placed_def checkout_view_def respond_def Let_def)
  have cv: "checkout_view req d = place_order req uid u c form ?ls d1"
    using ru gc ne fn m pf by (simp add: checkout_view_def Let_def)
  have fresh: "order_number (build_order req uid c form d1) \<notin> set (map order_number (orders d1))"
    using assms unfolding cv placed_def place_order_def Let_def raise_def
    by (auto split: if_splits)
  show thesis using that [OF ru gc ne fn m pf fresh cv] .
qed

lemma checkout_created_order:
  assumes "placed (checkout_view req d) n"
  obtains uid u c d1 form where
    "request_user req d = Some (uid, u)"
    "get_or_create_cart req d = Inr (c, d1)"
    "req_method req = POST" "post_form req = Some form"
    "created_order (checkout_view req d) = build_order req uid c form d1"
proof -
  from assms obtain uid u c d1 form where
    h: "request_user req d = Some (uid, u)" "get_or_create_cart req d = Inr (c, d1)"
       "req_method req = POST" "post_form req = Some form"
       "order_number (build_order req uid c form d1) \<notin> set (map order_number (orders d1))"
       "checkout_view req d = place_order req uid u c form (select_related_product d1 c) d1"
    by (rule checkout_view_placed)
  have "created_order (checkout_view req d) = build_order req uid c form d1"
    by (simp add: created_order_def h(6) place_order_db(1) [OF h(5)])
  with h show thesis using that by blast
qed

lemma checkout_view_out_of_stock:
  assumes "request_user req d = Some (uid, u)"
    and "get_or_create_cart req d = Inr (c, d1)"
    and "l \<in> set (select_related_product d1 c)"
    and "stock (snd l) < quantity (fst l)"
  shows "\<exists>name. checkout_view req d =
           respond d1 [(Error, Is_out_of_stock name)] (Redirect ''orders:cart'' [])"
proof -
  from assms(3) have ne: "select_related_product d1 c \<noteq> []" by auto
  from assms(3,4) obtain l' where
    "find (\<lambda>l. stock (snd l) < quantity (fst l)) (select_related_product d1 c) = Some l'"
    by (cases "find (\<lambda>l. stock (snd l) < quantity (fst l)) (select_related_product d1 c)")
      (auto simp: find_None_iff)
  then have "checkout_view req d =
      respond d1 [(Error, Is_out_of_stock (product_name (snd l')))] (Redirect ''orders:cart'' [])"
    using assms(1,2) ne by (simp add: checkout_view_def)
  then show ?thesis by blast
qed

lemma checkout_view_render:
  assumes "out_response (checkout_view req d) = Inr (Render_checkout s t sh tot e)"
  shows "t = s * (13 / 100) \<and> sh = (if s < 50 then 5 else 0) \<and> tot = s + t + sh"
  using assms
  by (auto simp: checkout_view_def respond_def raise_def place_order_def Let_def
      split: option.splits sum.splits prod.splits if_splits http_method.splits)

subsection \<open>The example scenario, evaluated\<close>

lemma shop_user: "request_user (checkout_post 11 e) shop = Some (11, new_user)"
  "request_user (checkout_post 12 e) shop = Some (12, new_user)"
  by (simp_all add: request_user_def checkout_post_def shop_def)

lemma shop_user_13: "request_user (checkout_post 13 e) shop = Some (13, new_user)"
  "request_user (checkout_post 14 e) shop = Some (14, new_user)"
  by (simp_all add: request_user_def checkout_post_def shop_def)

lemma shop_cart:
  "get_or_create_cart (checkout_post 11 e) shop = Inr (cart_1, shop)"
  "get_or_create_cart (checkout_post 12 e) shop = Inr (cart_2, shop)"
  by (simp_all add: get_or_create_cart_def shop_user)
     (simp_all add: cart_get_or_create_def shop_def cart_1_def cart_2_def cart_3_def)

lemma shop_cart_13:
  "get_or_create_cart (checkout_post 13 e) shop = Inr (cart_4, shop\<lparr>carts := carts shop @ [cart_4]\<rparr>)"
  by (simp add: get_or_create_cart_def shop_user_13)
     (simp add: cart_get_or_create_def shop_def cart_1_def cart_2_def cart_3_def cart_4_def next_id_def Let_def)

lemma shop_cart_14: "get_or_create_cart (checkout_post 14 e) shop = Inr (cart_3, shop)"
  by (simp add: get_or_create_cart_def shop_user_13)
     (simp add: cart_get_or_create_def shop_def cart_1_def cart_2_def cart_3_def)

lemma shop_lines:
  "select_related_product shop cart_1 =
     [(\<lparr>item_id = 41, item_cart = 31, item_product = 21, quantity = 2\<rparr>, product_a),
      (\<lparr>item_id = 42, item_cart = 31, item_product = 22, quantity = 1\<rparr>, product_b)]"
  "select_related_product shop cart_2 =
     [(\<lparr>item_id = 43, item_cart = 32, item_product = 23, quantity = 1\<rparr>, product_c)]"
  by (simp_all add: select_related_product_def items_all_def shop_def cart_1_def cart_2_def)

lemma shop_lines_14:
  "select_related_product shop cart_3 =
     [(\<lparr>item_id = 44, item_cart = 33, item_product = 22, quantity = 5\<rparr>, product_b)]"
  by (simp add: select_related_product_def items_all_def shop_def cart_3_def)

lemma shop_items:
  "items_all shop cart_1 =
     [\<lparr>item_id = 41, item_cart = 31, item_product = 21, quantity = 2\<rparr>,
      \<lparr>item_id = 42, item_cart = 31, item_product = 22, quantity = 1\<rparr>]"
  by (simp add: items_all_def shop_def cart_1_def)

lemma shop_stock: "stock_of shop 21 = 10" "stock_of shop 22 = 4" "stock_of shop 23 = 3"
  by (simp_all add: stock_of_def shop_def product_a_def product_b_def product_c_def)

lemma shop_totals:
  "total_price shop cart_1 = 5097 / 100"
  "total_price shop cart_2 = 999 / 100"
  "total_eco_points shop cart_1 = 284"
  "total_eco_points shop cart_2 = 35"
  by (simp_all add: total_price_def total_eco_points_def shop_lines item_subtotal_def
      product_a_def product_b_def product_c_def)

lemma shop_order_number: "make_order_number (env_uuid_hex (checkout_post uid e)) = ''ECO-0A1B2C3D''"
  by (simp add: make_order_number_def checkout_post_def hex_upper_def)

lemma shop_order_fresh:
  "order_number (build_order req uid c form shop) \<notin> set (map order_number (orders shop))"
  by (simp add: shop_def)

lemma shop_checkout:
  "checkout_view (checkout_post 11 e) shop =
     place_order (checkout_post 11 e) 11 new_user cart_1 address (select_related_product shop cart_1) shop"
  "checkout_view (checkout_post 12 e) shop =
     place_order (checkout_post 12 e) 12 new_user cart_2 address (select_related_product shop cart_2) shop"
  by (simp_all add: checkout_view_def shop_user shop_cart)
     (simp_all add: shop_lines product_a_def product_b_def product_c_def checkout_post_def)

lemma shop_placed:
  "placed (checkout_view (checkout_post 11 e) shop) ''ECO-0A1B2C3D''"
  "placed (checkout_view (checkout_post 12 e) shop) ''ECO-0A1B2C3D''"
  by (simp_all add: shop_checkout placed_def place_order_def Let_def build_order_def shop_order_number)
     (simp_all add: shop_def)

lemma shop_created_order:
  "created_order (checkout_view (checkout_post 11 e) shop) =
     build_order (checkout_post 11 e) 11 cart_1 address shop"
  "created_order (checkout_view (checkout_post 12 e) shop) =
     build_order (checkout_post 12 e) 12 cart_2 address shop"
  by (simp_all add: created_order_def shop_checkout place_order_db(1) [OF shop_order_fresh])

lemma shop_add_user: "request_user (add_post 12 q) shop = Some (12, new_user)"
  by (simp add: request_user_def add_post_def shop_def)

lemma shop_add_cart: "get_or_create_cart (add_post 12 q) shop = Inr (cart_2, shop)"
  by (simp add: get_or_create_cart_def shop_add_user)
     (simp add: cart_get_or_create_def shop_def cart_1_def cart_2_def cart_3_def)


lemma floor_numeral_div: "\<lfloor>numeral a / numeral b :: rat\<rfloor> = numeral a div numeral b"
  using floor_divide_of_int_eq [of "numeral a" "numeral b", where ?'a = rat] by simp

lemma ceiling_numeral_div: "\<lceil>numeral a / numeral b :: rat\<rceil> = - (- numeral a div numeral b)"
  using floor_divide_of_int_eq [of "- numeral a" "numeral b", where ?'a = rat]
  by (simp add: ceiling_def)

lemmas float_eval = float_literal_def float_of_int_def float_mul_def
  floor_log_def round_to_double_def round_to_digits_def pow_int_def round_half_even_def
  Let_def floor_numeral_div ceiling_numeral_div ilog.simps

lemma float_35_product:
  "float_mul (float_of_int 35) (float_literal (1 / 100)) = 6305039478318695 / 18014398509481984"
  by (simp add: float_eval)

lemma float_35_points:
  "decimal_of_float_str (float_mul (float_of_int 35) (float_literal (1 / 100))) =
     35000000000000003 / 100000000000000000"
  unfolding float_35_product
  by (simp add: decimal_of_float_str_def shortest_digits.simps float_eval)

lemma float_284_points:
  "decimal_of_float_str (float_mul (float_of_int 284) (float_literal (1 / 100))) = 284 / 100"
  by (simp add: decimal_of_float_str_def shortest_digits.simps float_eval)

subsection \<open>Checkout: the two checks before the order\<close>

text \<open>
  C1. When the cart of a checkout request has no items, or has a line whose product
  stock is below the line's quantity, the checkout is turned away (to the login page
  for an anonymous request, to the product list for an empty cart, to the cart
  otherwise) and no order or order item is created, no product row, no user row and no
  cart item changes.
\<close>

theorem checkout_rejected_before_mutation:
  assumes "get_or_create_cart req d = Inr (c, d1)"
    and "items_all d c = [] \<or>
         (\<exists>l \<in> set (select_related_product d c). stock (snd l) < quantity (fst l))"
  shows "out_response (checkout_view req d) =
           Inr (if request_user req d = None then Redirect_to_login
                else if select_related_product d c = [] then Redirect ''products:product_list'' []
                else Redirect ''orders:cart'' []) \<and>
         orders (out_db (checkout_view req d)) = orders d \<and>
         order_items (out_db (checkout_view req d)) = order_items d \<and>
         products (out_db (checkout_view req d)) = products d \<and>
         users (out_db (checkout_view req d)) = users d \<and>
         cart_items (out_db (checkout_view req d)) = cart_items d"
proof (cases "request_user req d")
  case None
  then show ?thesis by (simp add: checkout_view_def respond_def)
next
  case (Some a)
  obtain uid u where a: "a = (uid, u)" by (cases a)
  note t = get_or_create_cart_tables [OF assms(1)]
  note s = get_or_create_cart_totals(2) [OF assms(1)]
  show ?thesis
  proof (cases "select_related_product d c = []")
    case True
    then show ?thesis
      using Some a assms(1) t by (simp add: checkout_view_def respond_def s)
  next
    case False
    then have "items_all d c \<noteq> []"
      by (auto simp: select_related_product_def)
    with assms(2) have "\<exists>l \<in> set (select_related_product d c). stock (snd l) < quantity (fst l)"
      by simp
    then obtain l where "find (\<lambda>l. stock (snd l) < quantity (fst l)) (select_related_product d c) = Some l"
      by (cases "find (\<lambda>l. stock (snd l) < quantity (fst l)) (select_related_product d c)")
        (auto simp: find_None_iff)
    then show ?thesis
      using Some a assms(1) t False by (simp add: checkout_view_def respond_def s)
  qed
qed

theorem checkout_rejected_before_mutation_witness:
  "get_or_create_cart (checkout_post 14 None) shop = Inr (cart_3, shop) \<and>
   (items_all shop cart_3 = [] \<or>
    (\<exists>l \<in> set (select_related_product shop cart_3). stock (snd l) < quantity (fst l))) \<and>
   out_response (checkout_view (checkout_post 14 None) shop) = Inr (Redirect ''orders:cart'' []) \<and>
   out_db (checkout_view (checkout_post 14 None) shop) = shop \<and>
   get_or_create_cart (checkout_post 13 None) shop =
     Inr (cart_4, shop\<lparr>carts := carts shop @ [cart_4]\<rparr>) \<and>
   (items_all shop cart_4 = [] \<or>
    (\<exists>l \<in> set (select_related_product shop cart_4). stock (snd l) < quantity (fst l))) \<and>
   out_response (checkout_view (checkout_post 13 None) shop) =
     Inr (Redirect ''products:product_list'' []) \<and>
   cart_items (out_db (checkout_view (checkout_post 13 None) shop)) = cart_items shop \<and>
   orders (out_db (checkout_view (checkout_post 13 None) shop)) = orders shop"
proof -
  have l: "\<exists>l \<in> set (select_related_product shop cart_3). stock (snd l) < quantity (fst l)"
    by (simp add: shop_lines_14 product_b_def)
  then have h: "items_all shop cart_3 = [] \<or>
      (\<exists>l \<in> set (select_related_product shop cart_3). stock (snd l) < quantity (fst l))" ..
  have "out_db (checkout_view (checkout_post 14 None) shop) = shop"
    by (simp add: checkout_view_def shop_user_13 shop_cart_14 shop_lines_14 product_b_def respond_def)
  moreover have e: "items_all shop cart_4 = []"
    by (simp add: items_all_def shop_def cart_4_def)
  then have h': "items_all shop cart_4 = [] \<or>
      (\<exists>l \<in> set (select_related_product shop cart_4). stock (snd l) < quantity (fst l))" ..
  moreover have "select_related_product shop cart_4 = []"
    by (simp add: select_related_product_def e)
  ultimately show ?thesis
    using checkout_rejected_before_mutation [OF shop_cart_14 h, of None]
      checkout_rejected_before_mutation [OF shop_cart_13 h', of None] l e
    by (simp add: shop_cart_14 shop_cart_13 shop_user_13 shop_lines_14)
qed

subsection \<open>Checkout: pricing\<close>

text \<open>
  C4. A successful checkout creates an order whose shipping cost is 0 when the cart's
  total price is at least 50 and 5.00 when it is below 50, and whose total is
  subtotal + tax + shipping cost.
\<close>

theorem checkout_shipping_cost:
  assumes "placed (checkout_view req d) n"
    and "get_or_create_cart req d = Inr (c, d1)"
  shows "(50 \<le> total_price d c \<longrightarrow> shipping_cost (created_order (checkout_view req d)) = 0) \<and>
         (total_price d c < 50 \<longrightarrow> shipping_cost (created_order (checkout_view req d)) = 5) \<and>
         total (created_order (checkout_view req d)) =
           subtotal (created_order (checkout_view req d)) +
           tax (created_order (checkout_view req d)) +
           shipping_cost (created_order (checkout_view req d))"
proof -
  from assms(1) obtain uid u c' d1' form where
    h: "get_or_create_cart req d = Inr (c', d1')"
       "created_order (checkout_view req d) = build_order req uid c' form d1'"
    by (rule checkout_created_order)
  from h(1) assms(2) have eq: "c' = c" "d1' = d1" by simp_all
  have tp: "total_price d1 c = total_price d c"
    by (rule get_or_create_cart_totals(3) [OF assms(2)])
  show ?thesis
    unfolding h(2) eq using tp by (simp add: build_order_fields)
qed

theorem checkout_shipping_cost_witness:
  "placed (checkout_view (checkout_post 11 None) shop) ''ECO-0A1B2C3D'' \<and>
   get_or_create_cart (checkout_post 11 None) shop = Inr (cart_1, shop) \<and>
   total_price shop cart_1 = 5097 / 100 \<and>
   shipping_cost (created_order (checkout_view (checkout_post 11 None) shop)) = 0 \<and>
   placed (checkout_view (checkout_post 12 None) shop) ''ECO-0A1B2C3D'' \<and>
   get_or_create_cart (checkout_post 12 None) shop = Inr (cart_2, shop) \<and>
   total_price shop cart_2 = 999 / 100 \<and>
   shipping_cost (created_order (checkout_view (checkout_post 12 None) shop)) = 5"
  using checkout_shipping_cost [OF shop_placed(1) shop_cart(1)]
    checkout_shipping_cost [OF shop_placed(2) shop_cart(2)]
  by (simp add: shop_placed shop_cart shop_totals)




subsection \<open>Checkout: order, stock and cart\<close>

text \<open>
  C3. A successful checkout appends exactly one order and one order item per cart line,
  lowers the stock of each purchased product by the purchased quantity (so the
  quantities sum to the total stock decrease), leaves the cart without items, and
  keeps the cart row. The lines of a cart name distinct products
  (\<^verbatim>\<open>unique_together = ['cart', 'product']\<close>).
\<close>

theorem checkout_creates_order:
  assumes "placed (checkout_view req d) n"
    and "get_or_create_cart req d = Inr (c, d1)"
    and "distinct (map item_product (items_all d c))"
  shows "orders (out_db (checkout_view req d)) = orders d @ [created_order (checkout_view req d)] \<and>
         order_items (out_db (checkout_view req d)) =
           order_items d @
           map (order_item_of (order_id (created_order (checkout_view req d))))
             (select_related_product d c) \<and>
         (\<forall>l \<in> set (select_related_product d c).
            stock_of (out_db (checkout_view req d)) (item_product (fst l)) =
              stock_of d (item_product (fst l)) - quantity (fst l)) \<and>
         sum_list (map (\<lambda>l. quantity (fst l)) (select_related_product d c)) =
           sum_list (map (\<lambda>l. stock_of d (item_product (fst l)) -
                                stock_of (out_db (checkout_view req d)) (item_product (fst l)))
                      (select_related_product d c)) \<and>
         items_all (out_db (checkout_view req d)) c = [] \<and>
         c \<in> set (carts (out_db (checkout_view req d)))"
proof -
  let ?r = "checkout_view req d"
  let ?ls = "select_related_product d c"
  from assms(1) obtain uid u c' d1' form where
    h: "get_or_create_cart req d = Inr (c', d1')"
       "order_number (build_order req uid c' form d1') \<notin> set (map order_number (orders d1'))"
       "checkout_view req d = place_order req uid u c' form (select_related_product d1' c') d1'"
    by (rule checkout_view_placed)
  from h(1) assms(2) have eq: "c' = c" "d1' = d1" by simp_all
  note t = get_or_create_cart_tables [OF assms(2)]
  note s = get_or_create_cart_totals(2) [OF assms(2)]
  note po = place_order_db [OF h(2) [unfolded eq], of u ?ls]
  have r: "?r = place_order req uid u c form ?ls d1"
    using h(3) by (simp add: eq s)
  have co: "created_order ?r = build_order req uid c form d1"
    by (simp add: created_order_def r po(1))
  have o: "orders (out_db ?r) = orders d @ [created_order ?r]"
    by (simp add: co) (simp add: r po(1) t)
  have oi: "order_items (out_db ?r) =
      order_items d @ map (order_item_of (order_id (created_order ?r))) ?ls"
    by (simp add: co) (simp add: r po(2) t)
  have dist: "distinct (map (\<lambda>l. item_product (fst l)) ?ls)"
    unfolding select_related_product_def by (rule join_product_distinct [OF assms(3)])
  have st: "stock_of (out_db ?r) (item_product (fst l)) =
      stock_of d (item_product (fst l)) - quantity (fst l)" if "l \<in> set ?ls" for l
  proof -
    have "products d (item_product (fst l)) = Some (snd l)"
      using that unfolding select_related_product_def by (rule join_product_lookup)
    moreover have "products (out_db ?r) (item_product (fst l)) =
        Some ((snd l)\<lparr>stock := stock (snd l) - quantity (fst l)\<rparr>)"
      unfolding r po(3) by (rule create_order_items_purchased [OF dist that])
    ultimately show ?thesis by (simp add: stock_of_def)
  qed
  have sm: "sum_list (map (\<lambda>l. quantity (fst l)) ?ls) =
      sum_list (map (\<lambda>l. stock_of d (item_product (fst l)) -
                           stock_of (out_db ?r) (item_product (fst l))) ?ls)"
    by (rule arg_cong [where f = sum_list], rule map_cong) (simp_all add: st)
  have em: "items_all (out_db ?r) c = []"
    by (simp add: items_all_def r po(5) filter_empty_conv)
  have cr: "c \<in> set (carts (out_db ?r))"
    by (simp add: r po(6) t)
  from o oi st sm em cr show ?thesis by blast
qed

theorem checkout_creates_order_witness:
  "placed (checkout_view (checkout_post 11 None) shop) ''ECO-0A1B2C3D'' \<and>
   get_or_create_cart (checkout_post 11 None) shop = Inr (cart_1, shop) \<and>
   distinct (map item_product (items_all shop cart_1)) \<and>
   length (orders (out_db (checkout_view (checkout_post 11 None) shop))) = 1 \<and>
   length (order_items (out_db (checkout_view (checkout_post 11 None) shop))) = 2 \<and>
   stock_of (out_db (checkout_view (checkout_post 11 None) shop)) 21 = 8 \<and>
   stock_of (out_db (checkout_view (checkout_post 11 None) shop)) 22 = 3 \<and>
   items_all (out_db (checkout_view (checkout_post 11 None) shop)) cart_1 = [] \<and>
   cart_1 \<in> set (carts (out_db (checkout_view (checkout_post 11 None) shop)))"
proof -
  have d: "distinct (map item_product (items_all shop cart_1))"
    by (simp add: shop_items)
  have o: "orders shop = []" "order_items shop = []"
    by (simp_all add: shop_def)
  show ?thesis
    using checkout_creates_order [OF shop_placed(1) shop_cart(1) d]
    by (simp add: shop_placed shop_cart shop_items shop_lines shop_stock o)
qed

subsection \<open>Checkout: loyalty\<close>

text \<open>
  C6. After a successful checkout the user's eco points are the points before plus the
  sum of eco score times quantity over the cart's lines, read from the product rows at
  checkout time, and the user's order count is one higher.
\<close>

theorem checkout_credits_eco_points:
  assumes "placed (checkout_view req d) n"
    and "request_user req d = Some (uid, u)"
    and "get_or_create_cart req d = Inr (c, d1)"
  shows "map_option eco_points (users (out_db (checkout_view req d)) uid) =
           Some (eco_points u +
             sum_list (map (\<lambda>l. eco_score (snd l) * quantity (fst l)) (select_related_product d c))) \<and>
         map_option total_orders (users (out_db (checkout_view req d)) uid) =
           Some (total_orders u + 1)"
proof -
  from assms(1) obtain uid' u' c' d1' form where
    h: "request_user req d = Some (uid', u')" "get_or_create_cart req d = Inr (c', d1')"
       "order_number (build_order req uid' c' form d1') \<notin> set (map order_number (orders d1'))"
       "checkout_view req d = place_order req uid' u' c' form (select_related_product d1' c') d1'"
    by (rule checkout_view_placed)
  from h(1,2) assms(2,3) have eq: "uid' = uid" "u' = u" "c' = c" "d1' = d1" by simp_all
  have "total_eco_points d1 c = total_eco_points d c"
    by (rule get_or_create_cart_totals(4) [OF assms(3)])
  then show ?thesis
    using h(3) unfolding h(4) eq
    by (simp add: place_order_db(4) build_order_fields total_eco_points_def)
qed

theorem checkout_credits_eco_points_witness:
  "placed (checkout_view (checkout_post 11 None) shop) ''ECO-0A1B2C3D'' \<and>
   request_user (checkout_post 11 None) shop = Some (11, new_user) \<and>
   get_or_create_cart (checkout_post 11 None) shop = Inr (cart_1, shop) \<and>
   map_option eco_points (users (out_db (checkout_view (checkout_post 11 None) shop)) 11) = Some 284 \<and>
   map_option total_orders (users (out_db (checkout_view (checkout_post 11 None) shop)) 11) = Some 1"
  using checkout_credits_eco_points [OF shop_placed(1) shop_user(1) shop_cart(1)]
    shop_totals(3)
  by (simp add: shop_placed shop_user shop_cart total_eco_points_def new_user_def)

text \<open>
  C5, at a cart worth 35 eco points. The checkout succeeds and the order's
  \<^verbatim>\<open>co2_saved\<close> is \<^verbatim>\<open>Decimal('0.35000000000000003')\<close>, the shortest numeral of
  the float product \<^verbatim>\<open>35 * 0.01\<close>, not 0.35.
\<close>

theorem checkout_co2_saved_is_float_product:
  "placed (checkout_view (checkout_post 12 None) shop) ''ECO-0A1B2C3D'' \<and>
   eco_points_earned (created_order (checkout_view (checkout_post 12 None) shop)) = 35 \<and>
   co2_saved (created_order (checkout_view (checkout_post 12 None) shop)) =
     35000000000000003 / 100000000000000000 \<and>
   co2_saved (created_order (checkout_view (checkout_post 12 None) shop)) \<noteq>
     of_int (eco_points_earned (created_order (checkout_view (checkout_post 12 None) shop))) * (1 / 100)"
  by (simp add: shop_placed shop_created_order build_order_fields build_order_co2_saved
      shop_totals float_35_points)

subsection \<open>Checkout: the confirmation e-mail\<close>

lemma request_user_email [simp]:
  "request_user (req\<lparr>env_email_exception := x\<rparr>) d = request_user req d"
  by (simp add: request_user_def)

lemma get_or_create_cart_email [simp]:
  "get_or_create_cart (req\<lparr>env_email_exception := x\<rparr>) d = get_or_create_cart req d"
  by (simp add: get_or_create_cart_def split: option.splits)

lemma build_order_email [simp]:
  "build_order (req\<lparr>env_email_exception := x\<rparr>) uid c form d = build_order req uid c form d"
  by (simp add: build_order_def)

lemma place_order_email:
  "out_db (place_order (req\<lparr>env_email_exception := x\<rparr>) uid u c form ls d) =
     out_db (place_order req uid u c form ls d)"
  "out_response (place_order (req\<lparr>env_email_exception := x\<rparr>) uid u c form ls d) =
     out_response (place_order req uid u c form ls d)"
  "out_messages (place_order (req\<lparr>env_email_exception := x\<rparr>) uid u c form ls d) =
     out_messages (place_order req uid u c form ls d)"
  by (simp_all add: place_order_def Let_def raise_def)

lemma checkout_view_email:
  "out_db (checkout_view (req\<lparr>env_email_exception := x\<rparr>) d) = out_db (checkout_view req d)"
  "out_response (checkout_view (req\<lparr>env_email_exception := x\<rparr>) d) = out_response (checkout_view req d)"
  "out_messages (checkout_view (req\<lparr>env_email_exception := x\<rparr>) d) = out_messages (checkout_view req d)"
  by (simp_all add: checkout_view_def Let_def place_order_email
      split: option.splits sum.splits prod.splits http_method.splits)

text \<open>
  C9. An exception of the order-confirmation e-mail changes nothing but what is
  printed: the database, the response and the messages of the checkout are those of the
  same checkout with an e-mail call that returns, so a checkout that would succeed
  still succeeds with every write in place, and the exception is printed.
\<close>

theorem checkout_email_exception_swallowed:
  "out_db (checkout_view (req\<lparr>env_email_exception := Some e\<rparr>) d) =
     out_db (checkout_view (req\<lparr>env_email_exception := None\<rparr>) d) \<and>
   out_response (checkout_view (req\<lparr>env_email_exception := Some e\<rparr>) d) =
     out_response (checkout_view (req\<lparr>env_email_exception := None\<rparr>) d) \<and>
   out_messages (checkout_view (req\<lparr>env_email_exception := Some e\<rparr>) d) =
     out_messages (checkout_view (req\<lparr>env_email_exception := None\<rparr>) d) \<and>
   (placed (checkout_view (req\<lparr>env_email_exception := None\<rparr>) d) n \<longrightarrow>
      placed (checkout_view (req\<lparr>env_email_exception := Some e\<rparr>) d) n \<and>
      out_printed (checkout_view (req\<lparr>env_email_exception := Some e\<rparr>) d) =
        [''Email sending failed: '' @ e])"
proof -
  have p: "out_printed (checkout_view (req\<lparr>env_email_exception := Some e\<rparr>) d) =
        [''Email sending failed: '' @ e]"
    if "placed (checkout_view (req\<lparr>env_email_exception := None\<rparr>) d) n"
  proof -
    have "placed (checkout_view (req\<lparr>env_email_exception := Some e\<rparr>) d) n"
      using that by (simp add: placed_def checkout_view_email)
    then obtain uid u c d1 form where
      h: "order_number (build_order (req\<lparr>env_email_exception := Some e\<rparr>) uid c form d1)
            \<notin> set (map order_number (orders d1))"
         "checkout_view (req\<lparr>env_email_exception := Some e\<rparr>) d =
            place_order (req\<lparr>env_email_exception := Some e\<rparr>) uid u c form
              (select_related_product d1 c) d1"
      by (rule checkout_view_placed)
    show ?thesis unfolding h(2) by (simp add: place_order_printed [OF h(1)])
  qed
  show ?thesis
    using p by (simp add: checkout_view_email placed_def)
qed

theorem checkout_email_exception_swallowed_witness:
  "placed (checkout_view (checkout_post 11 None) shop) ''ECO-0A1B2C3D'' \<and>
   placed (checkout_view (checkout_post 11 (Some ''refused'')) shop) ''ECO-0A1B2C3D'' \<and>
   out_db (checkout_view (checkout_post 11 (Some ''refused'')) shop) =
     out_db (checkout_view (checkout_post 11 None) shop) \<and>
   out_printed (checkout_view (checkout_post 11 (Some ''refused'')) shop) =
     [''Email sending failed: refused'']"
proof -
  have e: "(checkout_post 11 x)\<lparr>env_email_exception := y\<rparr> = checkout_post 11 y" for x y
    by (simp add: checkout_post_def)
  show ?thesis
    using checkout_email_exception_swallowed
      [where req = "checkout_post 11 None" and e = "''refused''" and d = shop
        and n = "''ECO-0A1B2C3D''"]
    by (simp add: e shop_placed)
qed

subsection \<open>Adding to the cart\<close>

lemma add_to_cart_new_line:
  assumes "products d pid = Some p" and "is_active p"
    and "get_or_create_cart req d = Inr (c, d1)"
    and "parse_quantity (post_quantity req) = Inr q"
    and "q \<le> stock p"
    and "filter (\<lambda>it. item_product it = pid) (items_all d1 c) = []"
  shows "add_to_cart req pid d =
           respond
             (d1\<lparr>cart_items := cart_items d1 @
                [\<lparr>item_id = next_id (map item_id (cart_items d1)), item_cart = cart_id c,
                  item_product = pid, quantity = q\<rparr>]\<rparr>)
             [(Success, Added_to_cart (product_name p))]
             (Redirect (case req_referer req of None \<Rightarrow> ''products:product_list''
                        | Some url \<Rightarrow> url) [])"
  using assms by (simp add: add_to_cart_def)

lemma add_to_cart_existing_line:
  assumes "products d pid = Some p" and "is_active p"
    and "get_or_create_cart req d = Inr (c, d1)"
    and "parse_quantity (post_quantity req) = Inr q"
    and "q \<le> stock p"
    and "filter (\<lambda>it. item_product it = pid) (items_all d1 c) = [it]"
  shows "add_to_cart req pid d =
           respond (save_item (it\<lparr>quantity := quantity it + q\<rparr>) d1)
             [(Success, Updated_quantity_in_cart (product_name p))]
             (Redirect (case req_referer req of None \<Rightarrow> ''products:product_list''
                        | Some url \<Rightarrow> url) [])"
  using assms by (simp add: add_to_cart_def)

text \<open>
  C7. Adding a product with a requested quantity above the product's stock is turned
  away with the message that only the stock is available; the product rows and the
  cart items stay as they were.
\<close>

theorem add_to_cart_out_of_stock:
  assumes "products d pid = Some p" and "is_active p"
    and "get_or_create_cart req d = Inr (c, d1)"
    and "parse_quantity (post_quantity req) = Inr q"
    and "stock p < q"
  shows "out_response (add_to_cart req pid d) =
           Inr (Redirect ''products:product_detail'' [product_slug p]) \<and>
         out_messages (add_to_cart req pid d) = [(Error, Only_items_available (stock p))] \<and>
         products (out_db (add_to_cart req pid d)) = products d \<and>
         cart_items (out_db (add_to_cart req pid d)) = cart_items d"
  using assms get_or_create_cart_tables [OF assms(3)]
  by (simp add: add_to_cart_def respond_def)

theorem add_to_cart_out_of_stock_witness:
  "products shop 23 = Some product_c \<and> is_active product_c \<and>
   get_or_create_cart (add_post 12 (Int_text 4)) shop = Inr (cart_2, shop) \<and>
   parse_quantity (post_quantity (add_post 12 (Int_text 4))) = Inr 4 \<and>
   stock product_c < 4 \<and>
   out_messages (add_to_cart (add_post 12 (Int_text 4)) 23 shop) = [(Error, Only_items_available 3)] \<and>
   cart_items (out_db (add_to_cart (add_post 12 (Int_text 4)) 23 shop)) = cart_items shop"
proof -
  have p: "products shop 23 = Some product_c" by (simp add: shop_def)
  have a: "is_active product_c" by (simp add: product_c_def)
  have q: "parse_quantity (post_quantity (add_post 12 (Int_text 4))) = Inr 4"
    by (simp add: parse_quantity_def add_post_def)
  have s: "stock product_c < 4" by (simp add: product_c_def)
  show ?thesis
    using add_to_cart_out_of_stock [OF p a shop_add_cart q s] p a q s
    by (simp add: shop_add_cart product_c_def)
qed

text \<open>
  C10. The stock check of \<^verbatim>\<open>add_to_cart\<close> looks at the requested quantity only. A
  signed-in user adds a product that is not yet in the cart twice, each time with a
  quantity within the stock but with a sum above it: both calls succeed, the cart line
  holds the sum, the stock is untouched, and the checkout that follows is sent back to
  the cart with an out-of-stock message and writes nothing.
\<close>

theorem add_to_cart_ignores_quantity_in_cart:
  assumes "request_user req1 d = Some (uid, u)"
    and "req_user req2 = req_user req1" and "req_user req3 = req_user req1"
    and "products d pid = Some p" and "is_active p"
    and "get_or_create_cart req1 d = Inr (c, d1)"
    and "filter (\<lambda>it. item_product it = pid) (items_all d c) = []"
    and "parse_quantity (post_quantity req1) = Inr q1"
    and "parse_quantity (post_quantity req2) = Inr q2"
    and "q1 \<le> stock p" and "q2 \<le> stock p" and "stock p < q1 + q2"
  shows "out_messages (add_to_cart req1 pid d) = [(Success, Added_to_cart (product_name p))] \<and>
         out_messages (add_to_cart req2 pid (out_db (add_to_cart req1 pid d))) =
           [(Success, Updated_quantity_in_cart (product_name p))] \<and>
         map quantity (filter (\<lambda>it. item_product it = pid)
           (items_all (out_db (add_to_cart req2 pid (out_db (add_to_cart req1 pid d)))) c)) =
           [q1 + q2] \<and>
         stock_of (out_db (add_to_cart req2 pid (out_db (add_to_cart req1 pid d)))) pid = stock p \<and>
         out_response (checkout_view req3 (out_db (add_to_cart req2 pid (out_db (add_to_cart req1 pid d))))) =
           Inr (Redirect ''orders:cart'' []) \<and>
         (\<exists>name. out_messages (checkout_view req3
             (out_db (add_to_cart req2 pid (out_db (add_to_cart req1 pid d))))) =
           [(Error, Is_out_of_stock name)]) \<and>
         out_db (checkout_view req3 (out_db (add_to_cart req2 pid (out_db (add_to_cart req1 pid d))))) =
           out_db (add_to_cart req2 pid (out_db (add_to_cart req1 pid d)))"
proof -
  note t = get_or_create_cart_tables [OF assms(6)]
  note s = get_or_create_cart_totals(1) [OF assms(6)]
  define it1 where "it1 = \<lparr>item_id = next_id (map item_id (cart_items d1)), item_cart = cart_id c,
    item_product = pid, quantity = q1\<rparr>"
  define dA where "dA = d1\<lparr>cart_items := cart_items d1 @ [it1]\<rparr>"
  define dB where "dB = d1\<lparr>cart_items := cart_items d1 @ [it1\<lparr>quantity := q1 + q2\<rparr>]\<rparr>"
  have new: "filter (\<lambda>it. item_product it = pid) (items_all d1 c) = []"
    using assms(7) by (simp add: s)
  have r1: "add_to_cart req1 pid d =
      respond dA [(Success, Added_to_cart (product_name p))]
        (Redirect (case req_referer req1 of None \<Rightarrow> ''products:product_list'' | Some url \<Rightarrow> url) [])"
    unfolding dA_def it1_def
    by (rule add_to_cart_new_line [OF assms(4,5,6,8,10) new])
  have dbA: "out_db (add_to_cart req1 pid d) = dA"
    by (simp add: r1 respond_def)
  have uA: "request_user req2 dA = Some (uid, u)"
    by (rule request_user_users [OF assms(1,2)]) (simp add: dA_def t)
  have cA: "get_or_create_cart req2 dA = Inr (c, dA)"
    by (rule get_or_create_cart_again [OF assms(1,6) uA]) (simp add: dA_def)
  have pA: "products dA pid = Some p"
    by (simp add: dA_def t assms(4))
  have lineA: "filter (\<lambda>it. item_product it = pid) (items_all dA c) = [it1]"
    using new by (simp add: items_all_def dA_def it1_def)
  have fresh: "item_id r \<noteq> item_id it1" if "r \<in> set (cart_items d1)" for r
    using next_id_fresh [of "item_id r" "map item_id (cart_items d1)"] that
    by (simp add: it1_def)
  have "map (\<lambda>r. if item_id r = item_id it1 then it1\<lparr>quantity := q1 + q2\<rparr> else r)
      (cart_items d1) = cart_items d1"
    by (rule map_idI) (simp add: fresh)
  moreover have "quantity it1 = q1" "item_id (it1\<lparr>quantity := q1 + q2\<rparr>) = item_id it1"
    by (simp_all add: it1_def)
  ultimately have saved: "save_item (it1\<lparr>quantity := quantity it1 + q2\<rparr>) dA = dB"
    by (simp add: save_item_def dA_def dB_def)
  have r2: "add_to_cart req2 pid dA =
      respond dB [(Success, Updated_quantity_in_cart (product_name p))]
        (Redirect (case req_referer req2 of None \<Rightarrow> ''products:product_list'' | Some url \<Rightarrow> url) [])"
    using add_to_cart_existing_line [OF pA assms(5) cA assms(9,11) lineA]
    by (simp add: saved)
  have dbB: "out_db (add_to_cart req2 pid dA) = dB"
    by (simp add: r2 respond_def)
  have lineB: "filter (\<lambda>it. item_product it = pid) (items_all dB c) = [it1\<lparr>quantity := q1 + q2\<rparr>]"
    using new by (simp add: items_all_def dB_def it1_def)
  have pB: "products dB pid = Some p"
    by (simp add: dB_def t assms(4))
  have uB: "request_user req3 dB = Some (uid, u)"
    by (rule request_user_users [OF assms(1,3)]) (simp add: dB_def t)
  have cB: "get_or_create_cart req3 dB = Inr (c, dB)"
    by (rule get_or_create_cart_again [OF assms(1,6) uB]) (simp add: dB_def)
  have "it1\<lparr>quantity := q1 + q2\<rparr> \<in> set (items_all dB c)"
    by (simp add: items_all_def dB_def it1_def)
  then have mem: "(it1\<lparr>quantity := q1 + q2\<rparr>, p) \<in> set (select_related_product dB c)"
    unfolding select_related_product_def
    by (rule join_product_mem) (simp add: it1_def pB)
  have "stock (snd (it1\<lparr>quantity := q1 + q2\<rparr>, p)) < quantity (fst (it1\<lparr>quantity := q1 + q2\<rparr>, p))"
    using assms(12) by simp
  from checkout_view_out_of_stock [OF uB cB mem this]
  obtain name where r3: "checkout_view req3 dB =
      respond dB [(Error, Is_out_of_stock name)] (Redirect ''orders:cart'' [])" by blast
  show ?thesis
    unfolding dbA dbB
    by (simp add: r1 r2 r3 respond_def lineB stock_of_def pB)
qed

theorem add_to_cart_ignores_quantity_in_cart_witness:
  "request_user (add_post 12 (Int_text 6)) shop = Some (12, new_user) \<and>
   products shop 21 = Some product_a \<and> is_active product_a \<and>
   get_or_create_cart (add_post 12 (Int_text 6)) shop = Inr (cart_2, shop) \<and>
   filter (\<lambda>it. item_product it = 21) (items_all shop cart_2) = [] \<and>
   parse_quantity (post_quantity (add_post 12 (Int_text 6))) = Inr 6 \<and>
   6 \<le> stock product_a \<and> stock product_a < 6 + 6 \<and>
   map quantity (filter (\<lambda>it. item_product it = 21)
     (items_all (out_db (add_to_cart (add_post 12 (Int_text 6)) 21
        (out_db (add_to_cart (add_post 12 (Int_text 6)) 21 shop)))) cart_2)) = [12] \<and>
   out_response (checkout_view (checkout_post 12 None)
     (out_db (add_to_cart (add_post 12 (Int_text 6)) 21
        (out_db (add_to_cart (add_post 12 (Int_text 6)) 21 shop))))) =
     Inr (Redirect ''orders:cart'' [])"
proof -
  have u: "req_user (add_post 12 (Int_text 6)) = req_user (add_post 12 (Int_text 6))"
    "req_user (checkout_post 12 None) = req_user (add_post 12 (Int_text 6))"
    by (simp_all add: add_post_def checkout_post_def)
  have p: "products shop 21 = Some product_a" by (simp add: shop_def)
  have a: "is_active product_a" by (simp add: product_a_def)
  have n: "filter (\<lambda>it. item_product it = 21) (items_all shop cart_2) = []"
    by (simp add: items_all_def shop_def cart_2_def)
  have q: "parse_quantity (post_quantity (add_post 12 (Int_text 6))) = Inr 6"
    by (simp add: parse_quantity_def add_post_def)
  have s: "6 \<le> stock product_a" "stock product_a < 6 + 6" by (simp_all add: product_a_def)
  show ?thesis
    using add_to_cart_ignores_quantity_in_cart
      [OF shop_add_user u p a shop_add_cart n q q s(1) s(1) s(2)] p a n q s
    by (simp add: shop_add_user shop_add_cart)
qed

subsection \<open>Quantities in the cart\<close>

lemma get_item_or_404_mem:
  assumes "get_item_or_404 d iid c = Inr it"
  shows "it \<in> set (cart_items d)"
proof -
  from assms have "filter (\<lambda>it. item_id it = iid) (items_all d c) = [it]"
    by (auto simp: get_item_or_404_def split: list.splits)
  then have "it \<in> set (filter (\<lambda>it. item_id it = iid) (items_all d c))" by simp
  then show ?thesis by (simp add: items_all_def)
qed

lemma save_item_positive:
  "quantities_positive d \<Longrightarrow> 1 \<le> quantity it \<Longrightarrow> quantities_positive (save_item it d)"
  by (auto simp: quantities_positive_def save_item_def)

lemma delete_item_positive:
  "quantities_positive d \<Longrightarrow> quantities_positive (delete_item it d)"
  by (auto simp: quantities_positive_def delete_item_def)

lemma get_or_create_cart_positive:
  "get_or_create_cart req d = Inr (c, d1) \<Longrightarrow> quantities_positive d \<Longrightarrow> quantities_positive d1"
  by (simp add: quantities_positive_def get_or_create_cart_tables(3))

lemma update_cart_positive:
  assumes "quantities_positive d"
  shows "quantities_positive (out_db (update_cart req iid d))"
proof (cases "get_or_create_cart req d")
  case (Inl e)
  then show ?thesis using assms by (simp add: update_cart_def raise_def)
next
  case (Inr a)
  obtain c d1 where a: "a = (c, d1)" by (cases a)
  have p1: "quantities_positive d1"
    using Inr a assms by (auto dest: get_or_create_cart_positive)
  show ?thesis
  proof (cases "get_item_or_404 d1 iid c")
    case (Inl e)
    then show ?thesis using Inr a p1 by (simp add: update_cart_def raise_def)
  next
    case it: (Inr it)
    have "it \<in> set (cart_items d1)" by (rule get_item_or_404_mem [OF it])
    with p1 have q: "1 \<le> quantity it" by (simp add: quantities_positive_def)
    have up: "quantities_positive (save_item (it\<lparr>quantity := quantity it + 1\<rparr>) d1)"
      by (rule save_item_positive [OF p1]) (use q in simp)
    have down: "quantities_positive (save_item (it\<lparr>quantity := quantity it - 1\<rparr>) d1)"
      if "1 < quantity it"
      by (rule save_item_positive [OF p1]) (use that in simp)
    have del: "quantities_positive (delete_item it d1)"
      by (rule delete_item_positive [OF p1])
    show ?thesis
      using Inr a it p1 up down del
      by (simp add: update_cart_def raise_def respond_def split: option.splits)
  qed
qed

lemma remove_from_cart_positive:
  assumes "quantities_positive d"
  shows "quantities_positive (out_db (remove_from_cart req iid d))"
proof (cases "get_or_create_cart req d")
  case (Inl e)
  then show ?thesis using assms by (simp add: remove_from_cart_def raise_def)
next
  case (Inr a)
  obtain c d1 where a: "a = (c, d1)" by (cases a)
  have p1: "quantities_positive d1"
    using Inr a assms by (auto dest: get_or_create_cart_positive)
  show ?thesis
    using Inr a p1 delete_item_positive [OF p1]
    by (simp add: remove_from_cart_def raise_def respond_def split: sum.splits option.splits)
qed

lemma add_to_cart_positive:
  assumes "quantities_positive d"
    and "\<And>q. parse_quantity (post_quantity req) = Inr q \<Longrightarrow> 1 \<le> q"
  shows "quantities_positive (out_db (add_to_cart req pid d))"
proof (cases "products d pid")
  case None
  then show ?thesis using assms(1) by (simp add: add_to_cart_def raise_def)
next
  case (Some p)
  show ?thesis
  proof (cases "get_or_create_cart req d")
    case (Inl e)
    then show ?thesis using Some assms(1) by (simp add: add_to_cart_def raise_def)
  next
    case (Inr a)
    obtain c d1 where a: "a = (c, d1)" by (cases a)
    have p1: "quantities_positive d1"
      using Inr a assms(1) by (auto dest: get_or_create_cart_positive)
    show ?thesis
    proof (cases "parse_quantity (post_quantity req)")
      case (Inl e)
      then show ?thesis using Some Inr a assms(1) p1 by (simp add: add_to_cart_def raise_def)
    next
      case q: (Inr q')
      have q1: "1 \<le> q'" using assms(2) q by simp
      have new: "quantities_positive (d1\<lparr>cart_items := cart_items d1 @
          [\<lparr>item_id = i, item_cart = cart_id c, item_product = pid, quantity = q'\<rparr>]\<rparr>)" for i
        using p1 q1 by (auto simp: quantities_positive_def)
      have upd: "quantities_positive (save_item (it\<lparr>quantity := quantity it + q'\<rparr>) d1)"
        if "filter (\<lambda>it. item_product it = pid) (items_all d1 c) = [it]" for it
      proof -
        have "it \<in> set (filter (\<lambda>it. item_product it = pid) (items_all d1 c))"
          using that by simp
        then have "it \<in> set (cart_items d1)" by (simp add: items_all_def)
        with p1 have "1 \<le> quantity it" by (simp add: quantities_positive_def)
        with q1 show ?thesis by (intro save_item_positive [OF p1]) simp
      qed
      show ?thesis
        using Some Inr a assms(1) p1 q new upd
        by (simp add: add_to_cart_def raise_def respond_def split: list.splits)
    qed
  qed
qed

text \<open>
  C8, at a POST of quantity -1 for a product that is not in the cart: the stock check
  passes and a cart item with quantity -1 is stored.
\<close>

theorem add_to_cart_stores_negative_quantity:
  "out_messages (add_to_cart (add_post 12 (Int_text (- 1))) 21 shop) =
     [(Success, Added_to_cart ''A'')] \<and>
   map quantity (filter (\<lambda>it. item_product it = 21)
     (items_all (out_db (add_to_cart (add_post 12 (Int_text (- 1))) 21 shop)) cart_2)) = [- 1]"
proof -
  have p: "products shop 21 = Some product_a" by (simp add: shop_def)
  have a: "is_active product_a" by (simp add: product_a_def)
  have n: "filter (\<lambda>it. item_product it = 21) (items_all shop cart_2) = []"
    by (simp add: items_all_def shop_def cart_2_def)
  have q: "parse_quantity (post_quantity (add_post 12 (Int_text (- 1)))) = Inr (- 1)"
    by (simp add: parse_quantity_def add_post_def)
  have s: "- 1 \<le> stock product_a" by (simp add: product_a_def)
  show ?thesis
    by (simp add: add_to_cart_new_line [OF p a shop_add_cart q s n] respond_def items_all_def)
      (simp add: shop_def cart_2_def product_a_def)
qed

end
